theory Spec2Isabelle
  imports Complex_Main "HOL-Library.Word" "HOL-Library.Log_Nat"
begin

section \<open>Single-precision arithmetic as the driver uses it\<close>

text \<open>
  \<^verbatim>\<open>Watchdog::Configure\<close> takes a C++ \<^verbatim>\<open>float\<close>. On the target (an STM32 Nucleo board,
  \<^verbatim>\<open>#define ST_NUCLEO\<close>) that is IEEE 754 binary32, evaluated in single precision: 24
  significant bits, exponents of the leading bit from -126 to 127, round to nearest with
  ties to even, overflow to an infinity, gradual underflow.

  A value of the type is a rational number (which a finite binary32 value is), an
  infinity or a NaN. The two zeros are one value \<open>Finite 0\<close>: the driver only multiplies,
  compares, converts to an integer and divides by the non-zero constant \<^verbatim>\<open>LsiFreq\<close>, and
  none of these tells the zeros apart. \<open>is_binary32\<close> says which rationals the
  format holds; the arithmetic below rounds every result into it.
\<close>

datatype float32 = Finite rat | PlusInf | MinusInf | NaN

definition pow2 :: "int \<Rightarrow> rat" where
  "pow2 e = (if 0 \<le> e then 2 ^ nat e else 1 / 2 ^ nat (- e))"

text \<open>The exponent of the leading bit of a positive rational: \<open>\<lfloor>log\<^sub>2 x\<rfloor>\<close>.\<close>

definition floor_log2 :: "rat \<Rightarrow> int" where
  "floor_log2 x =
     (let (a, b) = quotient_of x;
          e = bitlen a - bitlen b
      in if x < pow2 e then e - 1 else e)"

definition round_half_even :: "rat \<Rightarrow> int" where
  "round_half_even x =
     (let f = \<lfloor>x\<rfloor>; d = x - of_int f
      in if d < 1 / 2 then f
         else if 1 / 2 < d then f + 1
         else if even f then f else f + 1)"

text \<open>
  The spacing of binary32 values around \<open>x\<close>: 23 bits below the leading bit, and never
  finer than \<open>2\<^sup>-\<^sup>1\<^sup>4\<^sup>9\<close> (subnormal numbers).
\<close>

definition quantum :: "rat \<Rightarrow> rat" where
  "quantum x = pow2 (max (floor_log2 \<bar>x\<bar>) (- 126) - 23)"

definition is_binary32 :: "rat \<Rightarrow> bool" where
  "is_binary32 x =
     (x = 0 \<or> (\<bar>x\<bar> < 2 ^ 128 \<and> of_int \<lfloor>x / quantum x\<rfloor> = x / quantum x))"

text \<open>Rounding an exact result to the format.\<close>

definition round32 :: "rat \<Rightarrow> float32" where
  "round32 x =
     (if x = 0 then Finite 0
      else let q = quantum x;
               r = of_int (round_half_even (x / q)) * q
           in if 2 ^ 128 \<le> r then PlusInf
              else if r \<le> - (2 ^ 128) then MinusInf
              else Finite r)"

definition is_zero :: "float32 \<Rightarrow> bool" where
  "is_zero x = (x = Finite 0)"

definition is_negative :: "float32 \<Rightarrow> bool" where
  "is_negative x = (case x of Finite r \<Rightarrow> r < 0 | MinusInf \<Rightarrow> True | _ \<Rightarrow> False)"

text \<open>\<^verbatim>\<open>a * b\<close> on two floats.\<close>

definition fmul :: "float32 \<Rightarrow> float32 \<Rightarrow> float32" where
  "fmul x y =
     (if x = NaN \<or> y = NaN then NaN
      else case (x, y) of
        (Finite a, Finite b) \<Rightarrow> round32 (a * b)
      | _ \<Rightarrow> if is_zero x \<or> is_zero y then NaN
             else if is_negative x = is_negative y then PlusInf else MinusInf)"

text \<open>\<^verbatim>\<open>a / b\<close> on two floats.\<close>

definition fdiv :: "float32 \<Rightarrow> float32 \<Rightarrow> float32" where
  "fdiv x y =
     (if x = NaN \<or> y = NaN then NaN
      else case (x, y) of
        (Finite a, Finite b) \<Rightarrow>
          if b \<noteq> 0 then round32 (a / b)
          else if a = 0 then NaN
          else if 0 < a then PlusInf else MinusInf
      | (Finite a, _) \<Rightarrow> Finite 0
      | (_, Finite b) \<Rightarrow> if is_negative x = (b < 0) then PlusInf else MinusInf
      | _ \<Rightarrow> NaN)"

text \<open>\<^verbatim>\<open>a < b\<close> on two floats: false whenever a NaN is compared.\<close>

fun flt :: "float32 \<Rightarrow> float32 \<Rightarrow> bool" where
  "flt NaN _ = False"
| "flt _ NaN = False"
| "flt (Finite a) (Finite b) = (a < b)"
| "flt (Finite a) PlusInf = True"
| "flt (Finite a) MinusInf = False"
| "flt PlusInf _ = False"
| "flt MinusInf MinusInf = False"
| "flt MinusInf _ = True"

text \<open>The implicit conversion of an \<^verbatim>\<open>int\<close> operand to \<^verbatim>\<open>float\<close>.\<close>

definition float_of_int :: "int \<Rightarrow> float32" where
  "float_of_int i = round32 (of_int i)"

text \<open>
  \<^verbatim>\<open>(uint32_t) x\<close>: the fraction is discarded (truncation toward zero). C++ defines the
  result only when the truncated value fits the destination, so not for \<open>x \<le> -1\<close>,
  \<open>x \<ge> 2\<^sup>3\<^sup>2\<close>, an infinity or a NaN. What the target delivers there is the parameter
  \<open>out_of_range\<close> (the Cortex-M conversion instruction saturates); nothing below depends
  on its choice.
\<close>

definition trunc_toward_zero :: "rat \<Rightarrow> int" where
  "trunc_toward_zero r = (if 0 \<le> r then \<lfloor>r\<rfloor> else - \<lfloor>- r\<rfloor>)"

definition float_to_uint32 :: "(float32 \<Rightarrow> 32 word) \<Rightarrow> float32 \<Rightarrow> 32 word" where
  "float_to_uint32 out_of_range x =
     (case x of
        Finite r \<Rightarrow>
          if 0 \<le> trunc_toward_zero r \<and> trunc_toward_zero r < 2 ^ 32
          then word_of_int (trunc_toward_zero r)
          else out_of_range x
      | _ \<Rightarrow> out_of_range x)"

section \<open>The watchdog driver\<close>

text \<open>
  Modelled from the spec: the \<^verbatim>\<open>IWDG_PRESCALER_*\<close> selector macros are declared in the
  vendor's HAL header, which is not among the sources. The spec says that each divisor
  maps to a distinct hardware-encoded selector, so the selectors are the constructors of
  a datatype.
\<close>

datatype iwdg_prescaler =
    IWDG_PRESCALER_4 | IWDG_PRESCALER_8 | IWDG_PRESCALER_16 | IWDG_PRESCALER_32
  | IWDG_PRESCALER_64 | IWDG_PRESCALER_128 | IWDG_PRESCALER_256

text \<open>
  What \<^verbatim>\<open>printf\<close> receives in \<^verbatim>\<open>Configure\<close>: \<^verbatim>\<open>Prescaler\<close>, \<^verbatim>\<open>ReloadValue\<close> and
  \<^verbatim>\<open>Calculated_timeout\<close>.
\<close>

record report =
  rep_prescaler :: "16 word"
  rep_reload :: "16 word"
  rep_timeout :: float32

text \<open>
  The state the driver acts on: the object's only field \<^verbatim>\<open>wdreset\<close>, and the hardware.
  \<open>RCC_FLAG_IWDGRST\<close> is the status bit that tells whether the independent watchdog
  caused the last reset. \<open>IWDG_KR\<close> is the write-only key register: the state keeps the
  keys written to it, oldest first. \<open>IWDG_PR\<close> and \<open>IWDG_RLR\<close> hold what was last written
  to the prescaler and reload registers (32 bits wide; the driver writes 16-bit values),
  \<open>console\<close> what was printed.
\<close>

record system =
  wdreset :: bool
  RCC_FLAG_IWDGRST :: bool
  IWDG_KR :: "32 word list"
  IWDG_PR :: iwdg_prescaler
  IWDG_RLR :: "32 word"
  console :: "report list"

text \<open>
  The constructor, with \<^verbatim>\<open>ST_NUCLEO\<close> defined and \<^verbatim>\<open>LPC\<close> not: the test of
  \<^verbatim>\<open>__HAL_RCC_GET_FLAG(RCC_FLAG_IWDGRST)\<close> is commented out, and what is left is
  \<^verbatim>\<open>wdreset = false\<close>.
\<close>

definition Watchdog :: "system \<Rightarrow> system" where
  "Watchdog s = s\<lparr>wdreset := False\<rparr>"

definition Service :: "system \<Rightarrow> system" where
  "Service s = s\<lparr>IWDG_KR := IWDG_KR s @ [0xAAAA]\<rparr>"

definition WatchdogCausedReset :: "system \<Rightarrow> bool" where
  "WatchdogCausedReset s = wdreset s"

definition LsiFreq :: int where
  "LsiFreq = 45000"

text \<open>
  The chain of tests of \<^verbatim>\<open>Configure\<close>, giving \<^verbatim>\<open>PrescalerCode\<close> and \<^verbatim>\<open>Prescaler\<close>.
  \<^verbatim>\<open>LsiFreq/4\<close> divides two \<^verbatim>\<open>int\<close>s, so the quotient is an integer (2812 for 16, 175 for
  256); it is converted to \<^verbatim>\<open>float\<close> for the product, and so is the bound.
\<close>

definition select_prescaler :: "float32 \<Rightarrow> iwdg_prescaler \<times> 16 word" where
  "select_prescaler timeout =
     (if flt (fmul timeout (float_of_int (LsiFreq div 4))) (float_of_int 0x7FF)
        then (IWDG_PRESCALER_4, 4)
      else if flt (fmul timeout (float_of_int (LsiFreq div 8))) (float_of_int 0xFF0)
        then (IWDG_PRESCALER_8, 8)
      else if flt (fmul timeout (float_of_int (LsiFreq div 16))) (float_of_int 0xFF0)
        then (IWDG_PRESCALER_16, 16)
      else if flt (fmul timeout (float_of_int (LsiFreq div 32))) (float_of_int 0xFF0)
        then (IWDG_PRESCALER_32, 32)
      else if flt (fmul timeout (float_of_int (LsiFreq div 64))) (float_of_int 0xFF0)
        then (IWDG_PRESCALER_64, 64)
      else if flt (fmul timeout (float_of_int (LsiFreq div 128))) (float_of_int 0xFF0)
        then (IWDG_PRESCALER_128, 128)
      else (IWDG_PRESCALER_256, 256))"

text \<open>
  \<^verbatim>\<open>ReloadValue = (uint32_t)(timeout * (LsiFreq/Prescaler))\<close>: \<^verbatim>\<open>Prescaler\<close> is promoted
  to \<^verbatim>\<open>int\<close> for the integer division, the product is converted to \<^verbatim>\<open>uint32_t\<close>, and the
  assignment to the \<^verbatim>\<open>uint16_t\<close> variable keeps the low 16 bits.
\<close>

definition reload_value :: "(float32 \<Rightarrow> 32 word) \<Rightarrow> float32 \<Rightarrow> 16 word \<Rightarrow> 16 word" where
  "reload_value out_of_range timeout Prescaler =
     ucast (float_to_uint32 out_of_range
              (fmul timeout (float_of_int (LsiFreq div uint Prescaler))))"

text \<open>
  \<^verbatim>\<open>Calculated_timeout = ((float)(Prescaler * ReloadValue)) / LsiFreq\<close>: both factors are
  promoted to \<^verbatim>\<open>int\<close>; with \<^verbatim>\<open>Prescaler\<close> at most 256 the product stays below \<open>2\<^sup>2\<^sup>4\<close>.
\<close>

definition calculated_timeout :: "16 word \<Rightarrow> 16 word \<Rightarrow> float32" where
  "calculated_timeout Prescaler ReloadValue =
     fdiv (float_of_int (uint Prescaler * uint ReloadValue)) (float_of_int LsiFreq)"

definition Configure :: "(float32 \<Rightarrow> 32 word) \<Rightarrow> float32 \<Rightarrow> system \<Rightarrow> system" where
  "Configure out_of_range timeout s =
     (let (PrescalerCode, Prescaler) = select_prescaler timeout;
          ReloadValue = reload_value out_of_range timeout Prescaler;
          Calculated_timeout = calculated_timeout Prescaler ReloadValue;
          s1 = s\<lparr>console := console s @
                  [\<lparr>rep_prescaler = Prescaler, rep_reload = ReloadValue,
                    rep_timeout = Calculated_timeout\<rparr>]\<rparr>;
          s2 = s1\<lparr>IWDG_KR := IWDG_KR s1 @ [0x5555]\<rparr>;
          s3 = s2\<lparr>IWDG_PR := PrescalerCode\<rparr>;
          s4 = s3\<lparr>IWDG_RLR := ucast ReloadValue\<rparr>;
          s5 = s4\<lparr>IWDG_KR := IWDG_KR s4 @ [0xAAAA]\<rparr>;
          s6 = s5\<lparr>IWDG_KR := IWDG_KR s5 @ [0xCCCC]\<rparr>
      in Service s6)"

section \<open>What the specification says, in the terms of the model\<close>

text \<open>
  The ordered set of prescalers and the bound each one is tested against: the tighter
  \<^verbatim>\<open>0x7FF\<close> for the first candidate, \<^verbatim>\<open>0xFF0\<close> for the others.
\<close>

definition prescalers :: "int list" where
  "prescalers = [4, 8, 16, 32, 64, 128, 256]"

definition bound :: "int \<Rightarrow> int" where
  "bound p = (if p = 4 then 0x7FF else 0xFF0)"

text \<open>
  The bound of a prescaler as the specification states it: the count
  \<open>timeout * (base_clock_hz / p)\<close> is strictly below the bound, the ratio being the clock
  ratio itself: 11250, 5625, 2812.5, 1406.25, 703.125, 351.5625 and 175.78125, each of
  them a binary32 value, so that the division is exact.
\<close>

definition bound_holds :: "float32 \<Rightarrow> int \<Rightarrow> bool" where
  "bound_holds t p =
     flt (fmul t (fdiv (float_of_int LsiFreq) (float_of_int p))) (float_of_int (bound p))"

text \<open>
  The test as the driver makes it for a prescaler: the same comparison on
  \<^verbatim>\<open>timeout * (LsiFreq/p)\<close> with the quotient of two \<^verbatim>\<open>int\<close>s, which drops the fraction
  (2812, 1406, 703, 351 and 175).
\<close>

definition test_passes :: "float32 \<Rightarrow> int \<Rightarrow> bool" where
  "test_passes t p = flt (fmul t (float_of_int (LsiFreq div p))) (float_of_int (bound p))"

text \<open>
  The product \<^verbatim>\<open>Prescaler * ReloadValue\<close> that \<^verbatim>\<open>Configure\<close> computes for a timeout: the
  length of the programmed period, in cycles of the 45 kHz oscillator.
\<close>

definition prescaler_reload_product :: "(float32 \<Rightarrow> 32 word) \<Rightarrow> float32 \<Rightarrow> int" where
  "prescaler_reload_product out_of_range t =
     (let (PrescalerCode, Prescaler) = select_prescaler t
      in uint Prescaler * uint (reload_value out_of_range t Prescaler))"

text \<open>
  A caller's use of one driver instance: any sequence of \<^verbatim>\<open>Configure\<close> and \<^verbatim>\<open>Service\<close>
  calls, run in order.
\<close>

datatype call = Call_Configure float32 | Call_Service

fun run :: "(float32 \<Rightarrow> 32 word) \<Rightarrow> call list \<Rightarrow> system \<Rightarrow> system" where
  "run out_of_range [] s = s"
| "run out_of_range (Call_Configure t # cs) s = run out_of_range cs (Configure out_of_range t s)"
| "run out_of_range (Call_Service # cs) s = run out_of_range cs (Service s)"

text \<open>
  Two concrete inputs for the examples below: a system on which no key has been written
  yet, and the saturating conversion of the Cortex-M for values that do not fit
  \<^verbatim>\<open>uint32_t\<close>.
\<close>

abbreviation after_reset :: system where
  "after_reset \<equiv> \<lparr>wdreset = False, RCC_FLAG_IWDGRST = False, IWDG_KR = [],
     IWDG_PR = IWDG_PRESCALER_4, IWDG_RLR = 0xFFF, console = []\<rparr>"

abbreviation saturate :: "float32 \<Rightarrow> 32 word" where
  "saturate x \<equiv> (if is_negative x \<or> x = NaN then 0 else 0xFFFFFFFF)"

section \<open>What a call leaves in each part of the state\<close>

lemma Service_wdreset: "wdreset (Service s) = wdreset s"
  by (simp add: Service_def)

lemma Configure_wdreset: "wdreset (Configure oor t s) = wdreset s"
  by (simp add: Configure_def Service_def Let_def split: prod.split)

lemma Configure_KR:
  "IWDG_KR (Configure oor t s) = IWDG_KR s @ [0x5555, 0xAAAA, 0xCCCC, 0xAAAA]"
  by (simp add: Configure_def Service_def Let_def split: prod.split)

lemma Configure_PR: "IWDG_PR (Configure oor t s) = fst (select_prescaler t)"
  by (simp add: Configure_def Service_def Let_def split: prod.split)

lemma Configure_RLR:
  "IWDG_RLR (Configure oor t s) = ucast (reload_value oor t (snd (select_prescaler t)))"
  by (simp add: Configure_def Service_def Let_def split: prod.split)

lemma Configure_console:
  "console (Configure oor t s) = console s @
     [\<lparr>rep_prescaler = snd (select_prescaler t),
       rep_reload = reload_value oor t (snd (select_prescaler t)),
       rep_timeout = calculated_timeout (snd (select_prescaler t))
                       (reload_value oor t (snd (select_prescaler t)))\<rparr>]"
  by (simp add: Configure_def Service_def Let_def split: prod.split)

lemma run_wdreset: "wdreset (run oor cs s) = wdreset s"
proof (induction cs arbitrary: s)
  case Nil
  show ?case by simp
next
  case (Cons c cs)
  show ?case
    by (cases c) (simp_all add: Cons.IH Configure_wdreset Service_wdreset)
qed

text \<open>The chain of tests of \<^verbatim>\<open>Configure\<close> is a chain of \<open>test_passes\<close>.\<close>

lemma select_prescaler_tests:
  "select_prescaler t =
     (if test_passes t 4 then (IWDG_PRESCALER_4, 4)
      else if test_passes t 8 then (IWDG_PRESCALER_8, 8)
      else if test_passes t 16 then (IWDG_PRESCALER_16, 16)
      else if test_passes t 32 then (IWDG_PRESCALER_32, 32)
      else if test_passes t 64 then (IWDG_PRESCALER_64, 64)
      else if test_passes t 128 then (IWDG_PRESCALER_128, 128)
      else (IWDG_PRESCALER_256, 256))"
  by (simp add: select_prescaler_def test_passes_def bound_def)

text \<open>
  Where the product is finite and fits \<^verbatim>\<open>uint32_t\<close>, the reload value is its integer
  part, whatever the target does outside that range.
\<close>

lemma reload_value_in_range:
  assumes "fmul t (float_of_int (LsiFreq div uint p)) = Finite v"
    and "0 \<le> v" and "v < 2 ^ 32"
  shows "reload_value oor t p = ucast (word_of_int \<lfloor>v\<rfloor> :: 32 word)"
proof -
  have "\<lfloor>v\<rfloor> < 2 ^ 32"
    using assms(3) by (simp add: floor_less_iff)
  then show ?thesis
    using assms(1,2) by (simp add: reload_value_def float_to_uint32_def trunc_toward_zero_def)
qed

section \<open>Choosing the prescaler\<close>

text \<open>
  Claim C6. With the 45000 Hz clock, \<^verbatim>\<open>Configure(1.0)\<close> rejects prescaler 4 (the product
  11250 is not below \<^verbatim>\<open>0x7FF\<close> = 2047) and prescaler 8 (5625 is not below \<^verbatim>\<open>0xFF0\<close> =
  4080), accepts prescaler 16, and the reload value is 2812; these are the values written
  to the prescaler and reload registers.
\<close>

theorem Configure_one_second:
  "fmul (Finite 1) (float_of_int (LsiFreq div 4)) = Finite 11250 \<and>
   float_of_int 0x7FF = Finite 2047 \<and>
   \<not> flt (fmul (Finite 1) (float_of_int (LsiFreq div 4))) (float_of_int 0x7FF) \<and>
   fmul (Finite 1) (float_of_int (LsiFreq div 8)) = Finite 5625 \<and>
   float_of_int 0xFF0 = Finite 4080 \<and>
   \<not> flt (fmul (Finite 1) (float_of_int (LsiFreq div 8))) (float_of_int 0xFF0) \<and>
   flt (fmul (Finite 1) (float_of_int (LsiFreq div 16))) (float_of_int 0xFF0) \<and>
   select_prescaler (Finite 1) = (IWDG_PRESCALER_16, 16) \<and>
   reload_value oor (Finite 1) 16 = 2812 \<and>
   IWDG_PR (Configure oor (Finite 1) s) = IWDG_PRESCALER_16 \<and>
   IWDG_RLR (Configure oor (Finite 1) s) = 2812"
proof -
  have a: "fmul (Finite 1) (float_of_int (LsiFreq div 4)) = Finite 11250"
    by code_simp
  have b: "float_of_int 0x7FF = Finite 2047"
    by code_simp
  have c: "fmul (Finite 1) (float_of_int (LsiFreq div 8)) = Finite 5625"
    by code_simp
  have d: "float_of_int 0xFF0 = Finite 4080"
    by code_simp
  have e: "fmul (Finite 1) (float_of_int (LsiFreq div 16)) = Finite 2812"
    by code_simp
  have e': "fmul (Finite 1) (float_of_int (LsiFreq div uint (16 :: 16 word))) = Finite 2812"
    by code_simp
  have sel: "select_prescaler (Finite 1) = (IWDG_PRESCALER_16, 16)"
    by code_simp
  have rel: "reload_value oor (Finite 1) 16 = 2812"
    using reload_value_in_range [OF e', of oor] by simp
  show ?thesis
    by (simp add: a b c d e sel rel Configure_PR Configure_RLR)
qed

section \<open>A timeout of 30 seconds, beyond every test\<close>

lemma product_30:
  "fmul (Finite 30) (float_of_int (LsiFreq div uint (256 :: 16 word))) = Finite 5250"
  by code_simp

lemma reload_30: "reload_value oor (Finite 30) 256 = 5250"
  using reload_value_in_range [OF product_30, of oor] by simp

lemma select_30: "select_prescaler (Finite 30) = (IWDG_PRESCALER_256, 256)"
  by code_simp

section \<open>Repeated calls and the reset cause\<close>

text \<open>
  Claim C8. For every timeout \<open>t\<close>, calling \<^verbatim>\<open>Configure(t)\<close> twice yields the same prescaler
  and the same reload value both times, in the registers and in what is printed; and the
  values do not depend on the state in which the call is made.
\<close>

theorem Configure_repeatable:
  "IWDG_PR (Configure oor t (Configure oor t s)) = IWDG_PR (Configure oor t s) \<and>
   IWDG_RLR (Configure oor t (Configure oor t s)) = IWDG_RLR (Configure oor t s) \<and>
   last (console (Configure oor t (Configure oor t s))) = last (console (Configure oor t s)) \<and>
   IWDG_PR (Configure oor t s') = IWDG_PR (Configure oor t s) \<and>
   IWDG_RLR (Configure oor t s') = IWDG_RLR (Configure oor t s) \<and>
   last (console (Configure oor t s')) = last (console (Configure oor t s))"
  by (simp add: Configure_PR Configure_RLR Configure_console)

text \<open>
  Claim C10. \<^verbatim>\<open>Service\<close> and \<^verbatim>\<open>Configure\<close> leave \<^verbatim>\<open>wdreset\<close> as it is, so
  \<^verbatim>\<open>WatchdogCausedReset\<close> returns the same value after any sequence of \<^verbatim>\<open>Configure\<close> and
  \<^verbatim>\<open>Service\<close> calls as before it. Two consecutive \<^verbatim>\<open>Service\<close> calls each write the key
  \<^verbatim>\<open>0xAAAA\<close> and nothing else: the prescaler and reload registers are unchanged, and
  nothing is printed.
\<close>

theorem reset_cause_fixed_and_Service_frame:
  "wdreset (Service s) = wdreset s \<and>
   wdreset (Configure oor t s) = wdreset s \<and>
   WatchdogCausedReset (run oor cs s) = WatchdogCausedReset s \<and>
   IWDG_KR (Service s) = IWDG_KR s @ [0xAAAA] \<and>
   IWDG_KR (Service (Service s)) = IWDG_KR (Service s) @ [0xAAAA] \<and>
   IWDG_PR (Service (Service s)) = IWDG_PR s \<and>
   IWDG_RLR (Service (Service s)) = IWDG_RLR s \<and>
   console (Service (Service s)) = console s"
  by (simp add: WatchdogCausedReset_def run_wdreset Configure_wdreset Service_def)

section \<open>Where the driver departs from its description\<close>

subsection \<open>The reload value in the fallback\<close>

text \<open>
  Claim C2 says that the reload value written to the reload register is clamped into
  \<^verbatim>\<open>[0, 0x0FFF]\<close> and that nothing wider than the 12-bit counter is ever programmed; the
  comment above the assignment of \<^verbatim>\<open>ReloadValue\<close> says the same (``must be a number
  between 0 and 0x0FFF''). The driver has no clamp. At 30 seconds, a binary32 value, every
  test fails, prescaler 256 is taken, and the reload register receives 5250 =
  \<^verbatim>\<open>0x1482\<close>, above \<^verbatim>\<open>0x0FFF\<close>; the 12 bits the counter keeps of it are 1154, not 4095.
\<close>

theorem Configure_reload_above_counter_width:
  "is_binary32 30 \<and> flt (Finite 0) (Finite 30) \<and>
   select_prescaler (Finite 30) = (IWDG_PRESCALER_256, 256) \<and>
   reload_value oor (Finite 30) 256 = 5250 \<and>
   IWDG_RLR (Configure oor (Finite 30) s) = 5250 \<and>
   (0x0FFF :: 32 word) < IWDG_RLR (Configure oor (Finite 30) s) \<and>
   take_bit 12 (IWDG_RLR (Configure oor (Finite 30) s)) = 1154"
proof -
  have "is_binary32 30" by code_simp
  then show ?thesis
    by (simp add: Configure_RLR select_30 reload_30)
qed

subsection \<open>The reset cause\<close>

text \<open>
  Claim C3 says that construction captures the hardware's reset-cause bit and that
  \<^verbatim>\<open>WatchdogCausedReset\<close> returns it; the comment in the constructor (``capture the cause
  of the previous reset'') and the documentation of \<^verbatim>\<open>WatchdogCausedReset\<close> (``true if the
  Watchdog was the cause of the reset'') say the same, and the \<^verbatim>\<open>LPC\<close> branch reads its
  status bit. In the branch that is compiled the read is commented out: on hardware whose
  flag is set, the constructor leaves the flag set and stores \<open>False\<close>, and
  \<^verbatim>\<open>WatchdogCausedReset\<close> returns \<open>False\<close>.
\<close>

theorem Watchdog_drops_reset_flag:
  "RCC_FLAG_IWDGRST (Watchdog (s\<lparr>RCC_FLAG_IWDGRST := True\<rparr>)) \<and>
   \<not> WatchdogCausedReset (Watchdog (s\<lparr>RCC_FLAG_IWDGRST := True\<rparr>))"
  by (simp add: Watchdog_def WatchdogCausedReset_def)

subsection \<open>The integer quotient of the clock by the prescaler\<close>

lemma select_t16: "select_prescaler (Finite (2971 / 2048)) = (IWDG_PRESCALER_16, 16)"
  by code_simp

text \<open>
  Claim C1 says that \<^verbatim>\<open>Configure\<close> chooses the smallest prescaler of the ordered set
  4, 8, 16, 32, 64, 128, 256 whose bound holds, the bound being strict on
  \<open>timeout * (base_clock_hz / p)\<close>. The driver tests \<^verbatim>\<open>timeout * (LsiFreq/p)\<close> with the
  integer quotient, 2812 for prescaler 16 where the clock ratio is 2812.5. At the binary32
  value 2971/2048 = 1.4507 the bounds of 4, 8 and 16 fail (the count for 16 is 4080.05,
  not below 4080) and the bound of 32 holds, so 32 is the smallest prescaler whose bound
  holds; the driver's test for 16 passes (4079.3 < 4080) and it programs prescaler 16.
\<close>

theorem Configure_prescaler_not_smallest:
  "is_binary32 (2971 / 2048) \<and> flt (Finite 0) (Finite (2971 / 2048)) \<and>
   \<not> bound_holds (Finite (2971 / 2048)) 4 \<and>
   \<not> bound_holds (Finite (2971 / 2048)) 8 \<and>
   \<not> bound_holds (Finite (2971 / 2048)) 16 \<and>
   bound_holds (Finite (2971 / 2048)) 32 \<and>
   find (bound_holds (Finite (2971 / 2048))) prescalers = Some 32 \<and>
   fmul (Finite (2971 / 2048)) (fdiv (float_of_int LsiFreq) (float_of_int 16)) =
     Finite (16711875 / 4096) \<and>
   fmul (Finite (2971 / 2048)) (float_of_int (LsiFreq div 16)) = Finite (2088613 / 512) \<and>
   test_passes (Finite (2971 / 2048)) 16 \<and>
   select_prescaler (Finite (2971 / 2048)) = (IWDG_PRESCALER_16, 16) \<and>
   IWDG_PR (Configure oor (Finite (2971 / 2048)) s) = IWDG_PRESCALER_16"
proof -
  have a: "is_binary32 (2971 / 2048)" by code_simp
  have b: "\<not> bound_holds (Finite (2971 / 2048)) 4" "\<not> bound_holds (Finite (2971 / 2048)) 8"
    "\<not> bound_holds (Finite (2971 / 2048)) 16" "bound_holds (Finite (2971 / 2048)) 32"
    by code_simp+
  have c: "fmul (Finite (2971 / 2048)) (fdiv (float_of_int LsiFreq) (float_of_int 16)) =
      Finite (16711875 / 4096)"
    by code_simp
  have d: "fmul (Finite (2971 / 2048)) (float_of_int (LsiFreq div 16)) =
      Finite (2088613 / 512)"
    by code_simp
  have e: "test_passes (Finite (2971 / 2048)) 16" by code_simp
  show ?thesis
    by (simp add: a b c d e select_t16 Configure_PR prescalers_def)
qed

lemma select_t128: "select_prescaler (Finite (743 / 64)) = (IWDG_PRESCALER_128, 128)"
  by code_simp

text \<open>
  Claim C4 says that for every positive timeout for which no prescaler among 4, 8, 16, 32,
  64, 128 satisfies its bound, \<^verbatim>\<open>Configure\<close> falls back to prescaler 256. At the binary32
  value 743/64 = 11.609 none of the six bounds holds (the count for 128 is
  11.609 * 351.5625 = 4081.4, not below 4080), but the driver's test for 128, with the
  integer quotient 351, passes (4074.9 < 4080): it programs prescaler 128, not 256.
\<close>

theorem Configure_takes_128_where_no_bound_holds:
  "is_binary32 (743 / 64) \<and> flt (Finite 0) (Finite (743 / 64)) \<and>
   \<not> bound_holds (Finite (743 / 64)) 4 \<and> \<not> bound_holds (Finite (743 / 64)) 8 \<and>
   \<not> bound_holds (Finite (743 / 64)) 16 \<and> \<not> bound_holds (Finite (743 / 64)) 32 \<and>
   \<not> bound_holds (Finite (743 / 64)) 64 \<and> \<not> bound_holds (Finite (743 / 64)) 128 \<and>
   fmul (Finite (743 / 64)) (fdiv (float_of_int LsiFreq) (float_of_int 128)) =
     Finite (4179375 / 1024) \<and>
   fmul (Finite (743 / 64)) (float_of_int (LsiFreq div 128)) = Finite (260793 / 64) \<and>
   test_passes (Finite (743 / 64)) 128 \<and>
   select_prescaler (Finite (743 / 64)) = (IWDG_PRESCALER_128, 128) \<and>
   IWDG_PR (Configure oor (Finite (743 / 64)) s) = IWDG_PRESCALER_128 \<and>
   IWDG_PR (Configure oor (Finite (743 / 64)) s) \<noteq> IWDG_PRESCALER_256"
proof -
  have a: "is_binary32 (743 / 64)" by code_simp
  have b: "\<not> bound_holds (Finite (743 / 64)) 4" "\<not> bound_holds (Finite (743 / 64)) 8"
    "\<not> bound_holds (Finite (743 / 64)) 16" "\<not> bound_holds (Finite (743 / 64)) 32"
    "\<not> bound_holds (Finite (743 / 64)) 64" "\<not> bound_holds (Finite (743 / 64)) 128"
    by code_simp+
  have c: "fmul (Finite (743 / 64)) (fdiv (float_of_int LsiFreq) (float_of_int 128)) =
      Finite (4179375 / 1024)"
    by code_simp
  have d: "fmul (Finite (743 / 64)) (float_of_int (LsiFreq div 128)) = Finite (260793 / 64)"
    by code_simp
  have e: "test_passes (Finite (743 / 64)) 128" by code_simp
  show ?thesis
    by (simp add: a b c d e select_t128 Configure_PR)
qed

lemma product_11_5:
  "fmul (Finite (23 / 2)) (float_of_int (LsiFreq div uint (128 :: 16 word))) =
     Finite (8073 / 2)"
  by code_simp

lemma reload_11_5: "reload_value oor (Finite (23 / 2)) 128 = 4036"
proof -
  have "\<lfloor>8073 / 2 :: rat\<rfloor> = 4036" by (simp add: floor_eq_iff)
  then show ?thesis
    using reload_value_in_range [OF product_11_5, of oor] by simp
qed

lemma select_11_5: "select_prescaler (Finite (23 / 2)) = (IWDG_PRESCALER_128, 128)"
  by code_simp

text \<open>
  Claim C5 says that for a realizable timeout \<open>t\<close> the achievable timeout
  \<^verbatim>\<open>Prescaler * ReloadValue / LsiFreq\<close> is never more than one prescaler step
  (\<^verbatim>\<open>Prescaler / LsiFreq\<close>) below \<open>t\<close>. The driver multiplies the timeout by the integer
  quotient \<^verbatim>\<open>LsiFreq/Prescaler\<close>, 351 for prescaler 128 where the clock ratio is 351.5625.
  At 11.5 seconds, a binary32 value, prescaler 128 is chosen by its own test (not by the
  fallback) and its bound holds with the clock ratio too; the reload value is 4036, and the achievable timeout, 128 * 4036 / 45000 =
  11.4802 s (exactly, and as the \<^verbatim>\<open>float\<close> the driver prints), is below
  11.5 - 128 / 45000 = 11.4972 s: about seven steps short.
\<close>

theorem Configure_timeout_short_by_more_than_a_step:
  "is_binary32 (23 / 2) \<and> flt (Finite 0) (Finite (23 / 2)) \<and>
   select_prescaler (Finite (23 / 2)) = (IWDG_PRESCALER_128, 128) \<and>
   test_passes (Finite (23 / 2)) 128 \<and>
   bound_holds (Finite (23 / 2)) 128 \<and>
   reload_value oor (Finite (23 / 2)) 128 = 4036 \<and>
   IWDG_RLR (Configure oor (Finite (23 / 2)) s) = 4036 \<and>
   (128 * 4036 / of_int LsiFreq :: rat) < 23 / 2 - 128 / of_int LsiFreq \<and>
   calculated_timeout 128 4036 = Finite (12037839 / 1048576) \<and>
   (12037839 / 1048576 :: rat) < 23 / 2 - 128 / of_int LsiFreq"
proof -
  have a: "is_binary32 (23 / 2)" by code_simp
  have b: "test_passes (Finite (23 / 2)) 128" "bound_holds (Finite (23 / 2)) 128"
    by code_simp+
  have c: "calculated_timeout 128 4036 = Finite (12037839 / 1048576)" by code_simp
  show ?thesis
    by (simp add: a b c select_11_5 reload_11_5 Configure_RLR LsiFreq_def)
qed

lemma product_t1:
  "fmul (Finite (2971 / 512)) (float_of_int (LsiFreq div uint (64 :: 16 word))) =
     Finite (2088613 / 512)"
  by code_simp

lemma product_t2:
  "fmul (Finite (743 / 128)) (float_of_int (LsiFreq div uint (128 :: 16 word))) =
     Finite (260793 / 128)"
  by code_simp

lemma reload_t1: "reload_value oor (Finite (2971 / 512)) 64 = 4079"
proof -
  have "\<lfloor>2088613 / 512 :: rat\<rfloor> = 4079" by (simp add: floor_eq_iff)
  then show ?thesis
    using reload_value_in_range [OF product_t1, of oor] by simp
qed

lemma reload_t2: "reload_value oor (Finite (743 / 128)) 128 = 2037"
proof -
  have "\<lfloor>260793 / 128 :: rat\<rfloor> = 2037" by (simp add: floor_eq_iff)
  then show ?thesis
    using reload_value_in_range [OF product_t2, of oor] by simp
qed

lemma select_t1: "select_prescaler (Finite (2971 / 512)) = (IWDG_PRESCALER_64, 64)"
  by code_simp

lemma select_t2: "select_prescaler (Finite (743 / 128)) = (IWDG_PRESCALER_128, 128)"
  by code_simp

text \<open>
  Claim C7 says that for realizable timeouts \<open>t1 < t2\<close> the product
  \<^verbatim>\<open>Prescaler * ReloadValue\<close> for \<open>t2\<close> is at least the one for \<open>t1\<close>. The integer quotients
  break this where the prescaler changes from 64 (quotient 703 for 703.125) to 128 (351
  for 351.5625). The binary32 values 2971/512 = 5.8027 and 743/128 = 5.8047 are both
  chosen by a test of their own, and with the clock ratio the bound of prescaler 128 holds
  for both, so neither is in the fallback: the first gets prescaler 64 and reload 4079,
  product 261056; the second, larger one gets prescaler 128 and reload 2037, product
  260736.
\<close>

theorem Configure_product_not_monotone:
  "is_binary32 (2971 / 512) \<and> is_binary32 (743 / 128) \<and>
   flt (Finite 0) (Finite (2971 / 512)) \<and> flt (Finite (2971 / 512)) (Finite (743 / 128)) \<and>
   select_prescaler (Finite (2971 / 512)) = (IWDG_PRESCALER_64, 64) \<and>
   test_passes (Finite (2971 / 512)) 64 \<and>
   bound_holds (Finite (2971 / 512)) 128 \<and>
   select_prescaler (Finite (743 / 128)) = (IWDG_PRESCALER_128, 128) \<and>
   test_passes (Finite (743 / 128)) 128 \<and>
   bound_holds (Finite (743 / 128)) 128 \<and>
   reload_value oor (Finite (2971 / 512)) 64 = 4079 \<and>
   reload_value oor (Finite (743 / 128)) 128 = 2037 \<and>
   prescaler_reload_product oor (Finite (2971 / 512)) = 261056 \<and>
   prescaler_reload_product oor (Finite (743 / 128)) = 260736 \<and>
   prescaler_reload_product oor (Finite (743 / 128)) <
     prescaler_reload_product oor (Finite (2971 / 512))"
proof -
  have a: "is_binary32 (2971 / 512)" "is_binary32 (743 / 128)" by code_simp+
  have b: "test_passes (Finite (2971 / 512)) 64" "test_passes (Finite (743 / 128)) 128"
    "bound_holds (Finite (2971 / 512)) 128" "bound_holds (Finite (743 / 128)) 128"
    by code_simp+
  show ?thesis
    by (simp add: a b select_t1 select_t2 reload_t1 reload_t2 prescaler_reload_product_def)
qed

subsection \<open>Timeouts that are not positive\<close>

text \<open>
  Claim C9 says that \<^verbatim>\<open>Configure(-1.0)\<close>, and every timeout that is not positive, is
  rejected with an error before any register is touched. It is not: started on a system
  where no key has been written, \<^verbatim>\<open>Configure(0.0)\<close> and \<^verbatim>\<open>Configure(-1.0)\<close> both write the
  four keys and the selector of prescaler 4, and \<^verbatim>\<open>Configure(0.0)\<close> the reload value 0.
\<close>

theorem Configure_programs_nonpositive_timeout:
  "\<not> flt (Finite 0) (Finite 0) \<and> \<not> flt (Finite 0) (Finite (- 1)) \<and>
   IWDG_KR after_reset = [] \<and>
   IWDG_KR (Configure saturate (Finite 0) after_reset) = [0x5555, 0xAAAA, 0xCCCC, 0xAAAA] \<and>
   IWDG_PR (Configure saturate (Finite 0) after_reset) = IWDG_PRESCALER_4 \<and>
   IWDG_RLR (Configure saturate (Finite 0) after_reset) = 0 \<and>
   IWDG_KR (Configure saturate (Finite (- 1)) after_reset) = [0x5555, 0xAAAA, 0xCCCC, 0xAAAA] \<and>
   IWDG_PR (Configure saturate (Finite (- 1)) after_reset) = IWDG_PRESCALER_4"
proof -
  have a: "select_prescaler (Finite 0) = (IWDG_PRESCALER_4, 4)" by code_simp
  have b: "select_prescaler (Finite (- 1)) = (IWDG_PRESCALER_4, 4)" by code_simp
  have c: "reload_value saturate (Finite 0) 4 = 0" by code_simp
  show ?thesis
    by (simp add: Configure_KR Configure_PR Configure_RLR a b c)
qed

text \<open>
  Claim C9, amended. \<^verbatim>\<open>Configure\<close> validates nothing and has no error to return: for
  \<^verbatim>\<open>-1.0\<close> and every timeout that is not positive it programs the hardware as for any
  other argument. It writes the unlock key, the selector and the reload value it
  computes from the timeout, then the reload, start and service keys.
\<close>

theorem Configure_never_rejects:
  assumes "\<not> flt (Finite 0) t"
  shows "IWDG_KR (Configure oor t s) = IWDG_KR s @ [0x5555, 0xAAAA, 0xCCCC, 0xAAAA] \<and>
         IWDG_PR (Configure oor t s) = fst (select_prescaler t) \<and>
         IWDG_RLR (Configure oor t s) = ucast (reload_value oor t (snd (select_prescaler t)))"
  by (simp add: Configure_KR Configure_PR Configure_RLR)

text \<open>The amended claim at \<^verbatim>\<open>-1.0\<close>, on a target whose conversion saturates.\<close>

theorem Configure_never_rejects_witness:
  "\<not> flt (Finite 0) (Finite (- 1)) \<and>
   IWDG_KR (Configure saturate (Finite (- 1)) after_reset) = [0x5555, 0xAAAA, 0xCCCC, 0xAAAA] \<and>
   IWDG_PR (Configure saturate (Finite (- 1)) after_reset) = IWDG_PRESCALER_4 \<and>
   IWDG_RLR (Configure saturate (Finite (- 1)) after_reset) = 0"
proof -
  have np: "\<not> flt (Finite 0) (Finite (- 1))" by simp
  have b: "select_prescaler (Finite (- 1)) = (IWDG_PRESCALER_4, 4)" by code_simp
  have c: "reload_value saturate (Finite (- 1)) 4 = 0" by code_simp
  show ?thesis
    using np Configure_never_rejects [OF np, of saturate after_reset] by (simp add: b c)
qed

end
